theory Spec2Isabelle
  imports Main "HOL-Library.Word"
begin

section \<open>The warning and assertion reporter of \<open>runtime/php_assert.cpp\<close>\<close>

text \<open>
  A shallow embedding of \<open>php_warning\<close>, \<open>php_assert__\<close> and their helpers. The process-wide
  variables become a configuration record (the variables the functions only read) and a
  state record (the variables they write); every write to \<open>stderr\<close>, every raised signal
  and every callback invocation is one entry of an effect trace; leaving the process through
  \<open>_exit\<close> is a status of the outcome.
\<close>

subsection \<open>Machine integers and addresses\<close>

text \<open>
  The counters and times are C \<open>int\<close>s. They are modelled as \<open>int\<close> with the 32-bit
  two's-complement wrap-around written out at every arithmetic step and at the cast
  \<open>(int)time(nullptr)\<close>.
\<close>

definition wrap32 :: "int \<Rightarrow> int" where
  "wrap32 x = (x + 2147483648) mod 4294967296 - 2147483648"

text \<open>A \<open>void *\<close> is a 64-bit word; pointers compare as unsigned values.\<close>

type_synonym address = "64 word"

subsection \<open>Configuration, state, inputs of one call\<close>

text \<open>
  \<open>php_disable_warnings\<close>, \<open>php_warning_level\<close>, \<open>engine_tag\<close> and \<open>engine_pid\<close> are the
  globals of lines 22-26; \<open>die_on_fail\<close> is declared in \<open>PHP/worker/php-engine-vars.h\<close>;
  the two section symbols are the linker-provided bounds of lines 31-32.
\<close>

record config =
  engine_tag :: string
  engine_pid :: string
  php_disable_warnings :: int
  php_warning_level :: int
  die_on_fail :: int
  start_run_scheduler_section :: address
  stop_run_scheduler_section :: address

text \<open>
  The function-local statics of \<open>php_warning\<close> (lines 83-85) and the depth counter
  \<open>dl::in_critical_section\<close>.
\<close>

record state =
  warnings_printed :: int
  warnings_count_time :: int
  skipped :: int
  in_critical_section :: int

definition initial_state :: state where
  "initial_state =
     \<lparr>warnings_printed = 0, warnings_count_time = 0, skipped = 0, in_critical_section = 0\<rparr>"

text \<open>What the third verbosity level meets when it tries to start the debugger.\<close>

datatype gdb_result = No_executable_name | Fork_failed | Gdb_waited

text \<open>
  Everything one call of \<open>php_warning\<close> reads from its environment: the two readings of the
  clock (lines 86 and 92), the full expansion of the format string with its arguments, the
  physical return addresses (innermost first) that \<open>fast_backtrace\<close> walks, the saved
  frames \<open>get_resumable_stack\<close> reads, the answer of \<open>get_demangled_backtrace\<close> (whether it
  printed, and the strings it passed to the callback) and the fate of the debugger.
\<close>

record call =
  clock :: int
  clock_resume :: int
  expansion :: string
  physical_stack :: "address list"
  resumable_stack :: "address list"
  demangled :: "address list \<Rightarrow> int \<Rightarrow> bool \<times> string list"
  gdb :: gdb_result

subsection \<open>Effects\<close>

text \<open>
  One constructor per \<open>fprintf\<close> of the source, carrying the values of its conversions:
  \<^item> \<open>Resuming_notice t k\<close>: \<^verbatim>\<open>[time=%d] Resuming writing warnings: %d skipped\<close>
  \<^item> \<open>Limit_notice t u\<close>: \<^verbatim>\<open>[time=%d] Warnings limit reached. No more will be printed till %d\<close>
  \<^item> \<open>Warning_line tag t pid buf\<close>: \<^verbatim>\<open>%s%d%sWarning: \<close> followed by \<^verbatim>\<open>%s\n\<close>
  \<^item> \<open>Backtrace_header\<close>, \<open>Backtrace_footer\<close>: the two rules around the backtrace
  \<^item> \<open>Address_line a\<close>: \<^verbatim>\<open>%p\n\<close>
  \<^item> \<open>Trace_str s\<close>: \<^verbatim>\<open>%s\<close> of one string of the demangler
  \<^item> \<open>Symbols_fd as\<close>: what \<open>backtrace_symbols_fd\<close> writes for the addresses
  \<^item> \<open>Gdb_output\<close>: what the attached debugger writes
  \<^item> \<open>Gdb_no_name\<close>, \<open>Gdb_fork_failed\<close>: the two explanatory lines of level 3
  \<^item> \<open>Exiting_in_php_warning\<close>, \<open>Exiting_in_php_assert\<close>: the last lines before \<open>_exit\<close>
\<close>

datatype line =
    Resuming_notice int int
  | Limit_notice int int
  | Warning_line string int string string
  | Backtrace_header
  | Address_line address
  | Trace_str string
  | Symbols_fd "address list"
  | Gdb_output
  | Gdb_no_name
  | Gdb_fork_failed
  | Backtrace_footer
  | Exiting_in_php_warning
  | Exiting_in_php_assert

datatype effect =
    Write line
  | Raise_SIGPHPASSERT
  | Invoke_callback string

datatype status = Returned | Exited int

record outcome =
  state_after :: state
  trace :: "effect list"
  status :: status

subsection \<open>The scheduler region\<close>

text \<open>Lines 33-35.\<close>

definition is_address_inside_run_scheduler :: "config \<Rightarrow> address \<Rightarrow> bool" where
  "is_address_inside_run_scheduler cfg a =
     (start_run_scheduler_section cfg \<le> a \<and> a \<le> stop_run_scheduler_section cfg)"

subsection \<open>Rendering addresses\<close>

text \<open>
  Lines 37-72. \<open>buffer\<close> is the array from the pointer on, \<open>nptrs\<close> the count: the
  function reads \<open>take (nat nptrs) buffer\<close>. A level other than 1, 2 or 3 writes nothing.
  At level 3 the child process that runs the debugger is another process; the model follows
  the parent.
\<close>

definition print_demangled_adresses ::
    "config \<Rightarrow> call \<Rightarrow> address list \<Rightarrow> int \<Rightarrow> int \<Rightarrow> effect list" where
  "print_demangled_adresses cfg c buffer nptrs num_shift =
     (if php_warning_level cfg = 1 then
        map (\<lambda>a. Write (Address_line a)) (take (nat nptrs) buffer)
      else if php_warning_level cfg = 2 then
        (case demangled c (take (nat nptrs) buffer) num_shift of
           (was_printed, strs) \<Rightarrow>
             map (\<lambda>s. Write (Trace_str s)) strs @
             (if was_printed then [] else [Write (Symbols_fd (take (nat nptrs) buffer))]))
      else if php_warning_level cfg = 3 then
        (case gdb c of
           Gdb_waited \<Rightarrow> [Write Gdb_output]
         | Fork_failed \<Rightarrow> [Write Gdb_fork_failed]
         | No_executable_name \<Rightarrow> [Write Gdb_no_name])
      else [])"

subsection \<open>Collaborators that are not among the sources\<close>

text \<open>
  Modelled from the spec: \<open>fast_backtrace\<close> (\<open>common/fast-backtrace.h\<close>) fills up to
  \<open>max_frames\<close> physical return addresses, innermost first, and truncates silently at the
  cap. The result is the filled part of the buffer; its length is the returned count.
\<close>

definition fast_backtrace :: "call \<Rightarrow> nat \<Rightarrow> address list" where
  "fast_backtrace c max_frames = take max_frames (physical_stack c)"

text \<open>
  Modelled from the spec: \<open>get_resumable_stack\<close> (\<open>runtime/resumable.h\<close>) gives the saved
  logical frames of the current cooperative task, at most \<open>max_frames\<close> of them, and
  none when there is no cooperative context.
\<close>

definition get_resumable_stack :: "call \<Rightarrow> nat \<Rightarrow> address list" where
  "get_resumable_stack c max_frames = take max_frames (resumable_stack c)"

text \<open>
  Modelled from the spec: \<open>dl::enter_critical_section\<close> and \<open>dl::leave_critical_section\<close>
  (\<open>runtime/critical_section.h\<close>) are the scoped acquire and release of the guard; the
  guard is held while the depth \<open>dl::in_critical_section\<close> is not zero.
\<close>

definition enter_critical_section :: "state \<Rightarrow> state" where
  "enter_critical_section s = s\<lparr>in_critical_section := in_critical_section s + 1\<rparr>"

definition leave_critical_section :: "state \<Rightarrow> state" where
  "leave_critical_section s = s\<lparr>in_critical_section := in_critical_section s - 1\<rparr>"

subsection \<open>\<open>std::find_if\<close>\<close>

text \<open>The distance from the start to the first element satisfying the predicate, or the
  length when there is none.\<close>

fun find_if :: "('a \<Rightarrow> bool) \<Rightarrow> 'a list \<Rightarrow> nat" where
  "find_if p [] = 0"
| "find_if p (x # xs) = (if p x then 0 else Suc (find_if p xs))"

subsection \<open>\<open>php_warning\<close>\<close>

definition BUF_SIZE :: nat where
  "BUF_SIZE = 1000"

definition warnings_time_period :: int where
  "warnings_time_period = 300"

definition warnings_time_limit :: int where
  "warnings_time_limit = 1000"

text \<open>Line 86: \<open>int cur_time = (int)time(nullptr)\<close>.\<close>

definition cur_time :: "call \<Rightarrow> int" where
  "cur_time c = wrap32 (clock c)"

text \<open>The test of line 88.\<close>

definition window_elapsed :: "int \<Rightarrow> int \<Rightarrow> bool" where
  "window_elapsed count_time t = (t \<ge> wrap32 (count_time + warnings_time_period))"

text \<open>Lines 88-95: the rollover of the rate window, with the notice it may write.\<close>

definition window_rollover :: "state \<Rightarrow> call \<Rightarrow> state \<times> effect list" where
  "window_rollover s c =
     (if window_elapsed (warnings_count_time s) (cur_time c) then
        (if skipped s > 0 then
           (s\<lparr>warnings_printed := 0, warnings_count_time := cur_time c, skipped := 0\<rparr>,
            [Write (Resuming_notice (wrap32 (clock_resume c)) (skipped s))])
         else
           (s\<lparr>warnings_printed := 0, warnings_count_time := cur_time c\<rparr>, []))
      else (s, []))"

text \<open>Line 126: the index of the first frame of \<open>buffer[0..nptrs)\<close> inside the scheduler.\<close>

definition scheduler_id :: "config \<Rightarrow> address list \<Rightarrow> int \<Rightarrow> int" where
  "scheduler_id cfg buffer nptrs =
     int (find_if (is_address_inside_run_scheduler cfg) (take (nat nptrs) buffer))"

text \<open>Lines 126-135: the frames, with the cooperative task's frames spliced in at the
  scheduler boundary when there is one.\<close>

definition print_frames :: "config \<Rightarrow> call \<Rightarrow> address list \<Rightarrow> int \<Rightarrow> effect list" where
  "print_frames cfg c buffer nptrs =
     (let sid = scheduler_id cfg buffer nptrs in
      if sid = nptrs then print_demangled_adresses cfg c buffer nptrs 0
      else
        (let buffer2 = get_resumable_stack c 64;
             res_ptrs = int (length buffer2)
         in print_demangled_adresses cfg c buffer sid 0 @
            print_demangled_adresses cfg c buffer2 res_ptrs sid @
            print_demangled_adresses cfg c (drop (nat sid) buffer) (nptrs - sid)
              (sid + res_ptrs)))"

text \<open>Lines 119-124: the count of frames kept. At level 1 it loses two, not below zero.\<close>

definition frame_count :: "config \<Rightarrow> address list \<Rightarrow> int" where
  "frame_count cfg buffer =
     (if php_warning_level cfg = 1 then
        (if int (length buffer) - 2 < 0 then 0 else int (length buffer) - 2)
      else int (length buffer))"

text \<open>Lines 115-138: the backtrace block.\<close>

definition stack_backtrace :: "config \<Rightarrow> call \<Rightarrow> effect list" where
  "stack_backtrace cfg c =
     (if php_warning_level cfg \<ge> 1 then
        (let buffer = fast_backtrace c 64;
             nptrs = frame_count cfg buffer
         in [Write Backtrace_header] @ print_frames cfg c buffer nptrs @
            [Write Backtrace_footer])
      else [])"

text \<open>Line 111: \<open>vsnprintf\<close> keeps at most \<open>BUF_SIZE - 1\<close> characters of the expansion.\<close>

definition buf :: "call \<Rightarrow> string" where
  "buf c = take (BUF_SIZE - 1) (expansion c)"

text \<open>The test of line 97, on the state that lines 88-95 leave.\<close>

definition limit_reached :: "state \<Rightarrow> call \<Rightarrow> bool" where
  "limit_reached s c =
     (wrap32 (warnings_printed (fst (window_rollover s c)) + 1) \<ge> warnings_time_limit)"

text \<open>Lines 74-149.\<close>

definition php_warning :: "config \<Rightarrow> state \<Rightarrow> call \<Rightarrow> outcome" where
  "php_warning cfg s c =
     (if php_warning_level cfg = 0 then \<lparr>state_after = s, trace = [], status = Returned\<rparr>
      else if php_disable_warnings cfg \<noteq> 0 then
        \<lparr>state_after = s, trace = [], status = Returned\<rparr>
      else
        (case window_rollover s c of
           (s1, notice) \<Rightarrow>
             (let s2 = s1\<lparr>warnings_printed := wrap32 (warnings_printed s1 + 1)\<rparr> in
              if warnings_printed s2 \<ge> warnings_time_limit then
                \<lparr>state_after = s2\<lparr>skipped := wrap32 (skipped s2 + 1)\<rparr>,
                 trace = notice @
                   (if warnings_printed s2 = warnings_time_limit then
                      [Write (Limit_notice (cur_time c)
                         (wrap32 (warnings_count_time s2 + warnings_time_period)))]
                    else []),
                 status = Returned\<rparr>
              else
                (let s3 = enter_critical_section s2;
                     report = [Write (Warning_line (engine_tag cfg) (cur_time c)
                                 (engine_pid cfg) (buf c))] @ stack_backtrace cfg c;
                     s4 = leave_critical_section s3;
                     hook = (if in_critical_section s4 = 0 then [Invoke_callback (buf c)]
                             else [])
                 in if die_on_fail cfg \<noteq> 0 then
                      \<lparr>state_after = s4,
                       trace = notice @ report @ hook @
                         [Raise_SIGPHPASSERT, Write Exiting_in_php_warning],
                       status = Exited 1\<rparr>
                    else
                      \<lparr>state_after = s4, trace = notice @ report @ hook,
                       status = Returned\<rparr>))))"

subsection \<open>\<open>php_assert__\<close> (here \<open>php_assert\<close>: a name cannot end in underscores)\<close>

text \<open>The conversion \<open>%d\<close>.\<close>

fun decimal_nat :: "nat \<Rightarrow> string" where
  "decimal_nat n =
     (if n < 10 then [char_of (48 + n)]
      else decimal_nat (n div 10) @ [char_of (48 + n mod 10)])"

declare decimal_nat.simps [simp del]

definition decimal :: "int \<Rightarrow> string" where
  "decimal i = (if i < 0 then CHR ''-'' # decimal_nat (nat (- i)) else decimal_nat (nat i))"

record assertion =
  msg :: string
  source_file :: string
  line_no :: int
  env :: call

text \<open>Line 152: the call of \<open>php_warning\<close> that \<open>php_assert__\<close> makes.\<close>

definition assertion_call :: "assertion \<Rightarrow> call" where
  "assertion_call a =
     (env a)\<lparr>expansion := ''Assertion \"'' @ msg a @ ''\" failed in file '' @ source_file a @
        '' on line '' @ decimal (line_no a)\<rparr>"

text \<open>
  Lines 151-156. When \<open>php_warning\<close> has already left the process, nothing more happens;
  otherwise the signal is raised, the last line written and the process left.
\<close>

definition php_assert :: "config \<Rightarrow> state \<Rightarrow> assertion \<Rightarrow> outcome" where
  "php_assert cfg s a =
     (let r = php_warning cfg s (assertion_call a) in
      case status r of
        Exited code \<Rightarrow> r
      | Returned \<Rightarrow>
          \<lparr>state_after = state_after r,
           trace = trace r @ [Raise_SIGPHPASSERT, Write Exiting_in_php_assert],
           status = Exited 1\<rparr>)"

subsection \<open>A caller emitting one warning after another\<close>

text \<open>Successive calls of \<open>php_warning\<close> on the same process: the state is carried from one
  call to the next, and a call that leaves the process is the last one.\<close>

fun emit_sequence :: "config \<Rightarrow> state \<Rightarrow> call list \<Rightarrow> outcome list" where
  "emit_sequence cfg s [] = []"
| "emit_sequence cfg s (c # cs) =
     (let r = php_warning cfg s c in
      case status r of
        Exited code \<Rightarrow> [r]
      | Returned \<Rightarrow> r # emit_sequence cfg (state_after r) cs)"

definition end_state :: "state \<Rightarrow> outcome list \<Rightarrow> state" where
  "end_state s rs = (case rs of [] \<Rightarrow> s | _ # _ \<Rightarrow> state_after (last rs))"

text \<open>A call rendered a report when it wrote the warning line.\<close>

fun is_warning_line :: "effect \<Rightarrow> bool" where
  "is_warning_line (Write (Warning_line tag t pid text)) = True"
| "is_warning_line other = False"

definition rendered :: "outcome \<Rightarrow> bool" where
  "rendered r = list_ex is_warning_line (trace r)"

text \<open>A callback invocation, as opposed to a write or a signal.\<close>

fun is_callback :: "effect \<Rightarrow> bool" where
  "is_callback (Invoke_callback m) = True"
| "is_callback other = False"

text \<open>The three ways in which \<open>php_warning\<close> returns before it writes a report: line 75
  (level 0, or warnings disabled) and line 97 (the limit of the window).\<close>

definition suppressed :: "config \<Rightarrow> state \<Rightarrow> call \<Rightarrow> bool" where
  "suppressed cfg s c =
     (if php_warning_level cfg = 0 then True
      else if php_disable_warnings cfg \<noteq> 0 then True
      else limit_reached s c)"

subsection \<open>Concrete inputs\<close>

text \<open>Level 1, the scheduler section at \<open>[4096, 8192]\<close>.\<close>

definition example_config :: config where
  "example_config =
     \<lparr>engine_tag = ''['', engine_pid = ''] '', php_disable_warnings = 0,
      php_warning_level = 1, die_on_fail = 0,
      start_run_scheduler_section = 4096, stop_run_scheduler_section = 8192\<rparr>"

text \<open>A call at time 1000 with six physical frames, the third inside the scheduler, and
  one saved frame of the cooperative task.\<close>

definition example_call :: call where
  "example_call =
     \<lparr>clock = 1000, clock_resume = 1000, expansion = ''Division by zero'',
      physical_stack = [16, 32, 5000, 48, 64, 80], resumable_stack = [100],
      demangled = (\<lambda>frames shift. (False, [])), gdb = Gdb_waited\<rparr>"

text \<open>The same call 301 seconds later.\<close>

definition later_call :: call where
  "later_call = example_call\<lparr>clock := 1301, clock_resume := 1301\<rparr>"

definition example_assertion :: assertion where
  "example_assertion =
     \<lparr>msg = ''x > 0'', source_file = ''a.cpp'', line_no = 42, env = example_call\<rparr>"

text \<open>A call whose only frame inside the scheduler is the outermost of four.\<close>

definition outermost_boundary_call :: call where
  "outermost_boundary_call = example_call\<lparr>physical_stack := [16, 32, 48, 5000]\<rparr>"

section \<open>Auxiliary facts\<close>

subsection \<open>Searching the frames\<close>

lemma find_if_le: "find_if p xs \<le> length xs"
  by (induction xs) auto

lemma find_if_none: "(\<forall>x\<in>set xs. \<not> p x) \<Longrightarrow> find_if p xs = length xs"
  by (induction xs) auto

lemma find_if_first:
  "\<exists>x\<in>set xs. p x \<Longrightarrow>
     find_if p xs < length xs \<and> p (xs ! find_if p xs) \<and> (\<forall>j < find_if p xs. \<not> p (xs ! j))"
proof (induction xs)
  case Nil
  then show ?case by simp
next
  case (Cons x xs)
  show ?case
  proof (cases "p x")
    case True
    then show ?thesis by simp
  next
    case False
    with Cons.prems have "\<exists>y\<in>set xs. p y" by simp
    from Cons.IH [OF this] False show ?thesis
      by (auto simp: nth_Cons split: nat.splits)
  qed
qed

subsection \<open>Rendering\<close>

lemma print_demangled_adresses_cong:
  assumes "take (nat n) b1 = take (nat n) b2"
  shows "print_demangled_adresses cfg c b1 n sh = print_demangled_adresses cfg c b2 n sh"
  unfolding print_demangled_adresses_def assms by (rule refl)

text \<open>The count of line 119-124 stays within the buffer.\<close>

lemma frame_count_range: "0 \<le> frame_count cfg buffer \<and> frame_count cfg buffer \<le> int (length buffer)"
  by (simp add: frame_count_def)

lemma frame_count_all: "php_warning_level cfg \<noteq> 1 \<Longrightarrow> frame_count cfg buffer = int (length buffer)"
  by (simp add: frame_count_def)

text \<open>Lines 130-134, when line 126 finds a boundary.\<close>

lemma print_frames_splice:
  assumes "0 \<le> nptrs" and "nptrs \<le> int (length buffer)"
    and "scheduler_id cfg buffer nptrs \<noteq> nptrs"
  shows "let frames = take (nat nptrs) buffer;
             k = nat (scheduler_id cfg buffer nptrs);
             coop = get_resumable_stack c 64
         in k < length frames \<and>
            is_address_inside_run_scheduler cfg (frames ! k) \<and>
            print_frames cfg c buffer nptrs =
              print_demangled_adresses cfg c (take k frames) (int k) 0 @
              print_demangled_adresses cfg c coop (int (length coop)) (int k) @
              print_demangled_adresses cfg c (drop k frames) (int (length frames - k))
                (int k + int (length coop)) \<and>
            take k frames @ drop k frames = frames \<and>
            (\<forall>i < k. take k frames ! i = frames ! i) \<and>
            (\<forall>j < length frames - k. drop k frames ! j = frames ! (k + j))"
proof -
  define frames where "frames = take (nat nptrs) buffer"
  define k where "k = find_if (is_address_inside_run_scheduler cfg) frames"
  have len: "int (length frames) = nptrs"
    using assms(1,2) by (simp add: frames_def)
  have sid: "scheduler_id cfg buffer nptrs = int k"
    by (simp add: scheduler_id_def k_def frames_def)
  have "k \<le> length frames"
    unfolding k_def by (rule find_if_le)
  with assms(3) sid len have klt: "k < length frames"
    by auto
  have "\<exists>a\<in>set frames. is_address_inside_run_scheduler cfg a"
  proof (rule ccontr)
    assume "\<not> ?thesis"
    then have "k = length frames"
      unfolding k_def by (simp add: find_if_none)
    with klt show False by simp
  qed
  from find_if_first [OF this]
  have inside: "is_address_inside_run_scheduler cfg (frames ! k)"
    by (simp add: k_def)
  have kn: "k \<le> nat nptrs"
    using klt len by simp
  have pre: "print_demangled_adresses cfg c buffer (int k) 0 =
      print_demangled_adresses cfg c (take k frames) (int k) 0"
    by (rule print_demangled_adresses_cong) (simp add: frames_def min_absorb1 kn)
  have post: "print_demangled_adresses cfg c (drop k buffer) (nptrs - int k) sh =
      print_demangled_adresses cfg c (drop k frames) (int (length frames - k)) sh" for sh
  proof -
    have "take (nat (nptrs - int k)) (drop k buffer) = drop k frames"
      using klt len by (simp add: frames_def drop_take nat_diff_distrib')
    then have "take (nat (nptrs - int k)) (drop k buffer) =
        take (nat (nptrs - int k)) (drop k frames)"
      using klt len by simp
    then have "print_demangled_adresses cfg c (drop k buffer) (nptrs - int k) sh =
        print_demangled_adresses cfg c (drop k frames) (nptrs - int k) sh"
      by (rule print_demangled_adresses_cong)
    moreover have "nptrs - int k = int (length frames - k)"
      using klt len by simp
    ultimately show ?thesis by simp
  qed
  have "print_frames cfg c buffer nptrs =
      print_demangled_adresses cfg c (take k frames) (int k) 0 @
      print_demangled_adresses cfg c (get_resumable_stack c 64)
        (int (length (get_resumable_stack c 64))) (int k) @
      print_demangled_adresses cfg c (drop k frames) (int (length frames - k))
        (int k + int (length (get_resumable_stack c 64)))"
    using assms(3) sid by (simp add: print_frames_def Let_def pre post)
  with klt inside sid show ?thesis
    by (simp add: Let_def frames_def [symmetric])
qed

lemma stack_backtrace_no_callback: "filter is_callback (stack_backtrace cfg c) = []"
  by (auto simp: stack_backtrace_def print_frames_def print_demangled_adresses_def Let_def
      filter_empty_conv split: prod.splits gdb_result.splits)

subsection \<open>Single calls\<close>

lemma php_warning_returns:
  "die_on_fail cfg = 0 \<Longrightarrow> status (php_warning cfg s c) = Returned"
  by (simp add: php_warning_def Let_def split: prod.splits)

lemma php_warning_exit_code:
  "status (php_warning cfg s c) = Exited code \<Longrightarrow> code = 1"
  by (simp add: php_warning_def Let_def split: prod.splits if_splits)

lemma php_warning_suppressed:
  "suppressed cfg s c \<Longrightarrow>
     \<not> rendered (php_warning cfg s c) \<and> status (php_warning cfg s c) = Returned"
  by (auto simp: suppressed_def limit_reached_def php_warning_def rendered_def Let_def
      window_rollover_def split: if_splits)

text \<open>The trace of a call that renders: notice, warning line, backtrace, callback, exit.\<close>

lemma rendered_trace:
  "rendered (php_warning cfg s c) \<Longrightarrow>
     trace (php_warning cfg s c) =
       snd (window_rollover s c) @
       [Write (Warning_line (engine_tag cfg) (cur_time c) (engine_pid cfg) (buf c))] @
       stack_backtrace cfg c @
       (if in_critical_section s = 0 then [Invoke_callback (buf c)] else []) @
       (if die_on_fail cfg \<noteq> 0 then [Raise_SIGPHPASSERT, Write Exiting_in_php_warning]
        else [])"
  by (simp add: php_warning_def rendered_def Let_def window_rollover_def
      enter_critical_section_def leave_critical_section_def split: if_splits)

lemma wrap32_id: "- 2147483648 \<le> x \<Longrightarrow> x < 2147483648 \<Longrightarrow> wrap32 x = x"
  by (simp add: wrap32_def)

text \<open>One call inside the window, below the limit.\<close>

lemma step_render:
  assumes "php_warning_level cfg \<noteq> 0" and "php_disable_warnings cfg = 0"
    and "die_on_fail cfg = 0"
    and "\<not> window_elapsed (warnings_count_time s) (cur_time c)"
    and "0 \<le> warnings_printed s" and "warnings_printed s + 1 < warnings_time_limit"
  shows "state_after (php_warning cfg s c) = s\<lparr>warnings_printed := warnings_printed s + 1\<rparr>"
    and "rendered (php_warning cfg s c)"
proof -
  have w: "wrap32 (warnings_printed s + 1) = warnings_printed s + 1"
    using assms(5,6) by (intro wrap32_id) (simp_all add: warnings_time_limit_def)
  show "state_after (php_warning cfg s c) = s\<lparr>warnings_printed := warnings_printed s + 1\<rparr>"
    using assms
    by (simp add: php_warning_def window_rollover_def w Let_def enter_critical_section_def
        leave_critical_section_def)
  show "rendered (php_warning cfg s c)"
    using assms
    by (simp add: php_warning_def window_rollover_def w Let_def rendered_def)
qed

text \<open>One call inside the window, at or beyond the limit.\<close>

lemma step_skip:
  assumes "php_warning_level cfg \<noteq> 0" and "php_disable_warnings cfg = 0"
    and "\<not> window_elapsed (warnings_count_time s) (cur_time c)"
    and "warnings_time_limit \<le> warnings_printed s + 1"
    and "warnings_printed s + 1 < 2147483648"
    and "0 \<le> skipped s" and "skipped s + 1 < 2147483648"
  shows "state_after (php_warning cfg s c) =
           s\<lparr>warnings_printed := warnings_printed s + 1, skipped := skipped s + 1\<rparr>"
    and "trace (php_warning cfg s c) =
           (if warnings_printed s + 1 = warnings_time_limit
            then [Write (Limit_notice (cur_time c)
                    (wrap32 (warnings_count_time s + warnings_time_period)))]
            else [])"
proof -
  have w: "wrap32 (warnings_printed s + 1) = warnings_printed s + 1"
    using assms(4,5) by (intro wrap32_id) (simp_all add: warnings_time_limit_def)
  have k: "wrap32 (skipped s + 1) = skipped s + 1"
    using assms(6,7) by (intro wrap32_id) simp_all
  show "state_after (php_warning cfg s c) =
           s\<lparr>warnings_printed := warnings_printed s + 1, skipped := skipped s + 1\<rparr>"
    using assms(1-4) by (simp add: php_warning_def window_rollover_def w k Let_def)
  show "trace (php_warning cfg s c) =
           (if warnings_printed s + 1 = warnings_time_limit
            then [Write (Limit_notice (cur_time c)
                    (wrap32 (warnings_count_time s + warnings_time_period)))]
            else [])"
    using assms(1-4) by (simp add: php_warning_def window_rollover_def w k Let_def)
qed

text \<open>The first call of a window.\<close>

lemma step_rollover:
  assumes "php_warning_level cfg \<noteq> 0" and "php_disable_warnings cfg = 0"
    and "die_on_fail cfg = 0"
    and "window_elapsed (warnings_count_time s) (cur_time c)"
    and "0 \<le> skipped s"
  shows "state_after (php_warning cfg s c) =
           s\<lparr>warnings_printed := 1, warnings_count_time := cur_time c, skipped := 0\<rparr>"
    and "rendered (php_warning cfg s c)"
    and "trace (php_warning cfg s c) =
           (if skipped s > 0
            then [Write (Resuming_notice (wrap32 (clock_resume c)) (skipped s))] else []) @
           [Write (Warning_line (engine_tag cfg) (cur_time c) (engine_pid cfg) (buf c))] @
           stack_backtrace cfg c @
           (if in_critical_section s = 0 then [Invoke_callback (buf c)] else [])"
proof -
  have w: "wrap32 1 = 1"
    by (simp add: wrap32_def)
  have z: "skipped s = 0" if "\<not> 0 < skipped s"
    using that assms(5) by simp
  show "state_after (php_warning cfg s c) =
           s\<lparr>warnings_printed := 1, warnings_count_time := cur_time c, skipped := 0\<rparr>"
    using assms(1-4) z
    by (simp add: php_warning_def window_rollover_def w Let_def warnings_time_limit_def
        enter_critical_section_def leave_critical_section_def)
  show "rendered (php_warning cfg s c)"
    using assms(1-4)
    by (simp add: php_warning_def window_rollover_def w Let_def warnings_time_limit_def
        rendered_def)
  show "trace (php_warning cfg s c) =
           (if skipped s > 0
            then [Write (Resuming_notice (wrap32 (clock_resume c)) (skipped s))] else []) @
           [Write (Warning_line (engine_tag cfg) (cur_time c) (engine_pid cfg) (buf c))] @
           stack_backtrace cfg c @
           (if in_critical_section s = 0 then [Invoke_callback (buf c)] else [])"
    using assms(1-4)
    by (simp add: php_warning_def window_rollover_def w Let_def warnings_time_limit_def
        enter_critical_section_def leave_critical_section_def)
qed

subsection \<open>Sequences of calls\<close>

lemma emit_sequence_returns:
  "die_on_fail cfg = 0 \<Longrightarrow>
     length (emit_sequence cfg s cs) = length cs \<and>
     (\<forall>r\<in>set (emit_sequence cfg s cs). status r = Returned)"
  by (induction cs arbitrary: s) (simp_all add: php_warning_returns Let_def)

lemma end_state_Nil: "end_state s [] = s"
  by (simp add: end_state_def)

lemma end_state_Cons: "end_state s (r # rs) = end_state (state_after r) rs"
  by (cases rs) (simp_all add: end_state_def)

lemma emit_sequence_Cons:
  "die_on_fail cfg = 0 \<Longrightarrow>
     emit_sequence cfg s (c # cs) =
       php_warning cfg s c # emit_sequence cfg (state_after (php_warning cfg s c)) cs"
  by (simp add: Let_def php_warning_returns)

lemma emit_sequence_append:
  "die_on_fail cfg = 0 \<Longrightarrow>
     emit_sequence cfg s (xs @ ys) =
       emit_sequence cfg s xs @
       emit_sequence cfg (end_state s (emit_sequence cfg s xs)) ys"
proof (induction xs arbitrary: s)
  case Nil
  show ?case by (simp add: end_state_Nil)
next
  case (Cons x xs)
  from Cons.prems show ?case
    by (simp only: append_Cons emit_sequence_Cons end_state_Cons Cons.IH [OF Cons.prems])
qed

lemma run_render:
  assumes "php_warning_level cfg \<noteq> 0" and "php_disable_warnings cfg = 0"
    and "die_on_fail cfg = 0"
  shows "\<forall>c\<in>set cs. \<not> window_elapsed (warnings_count_time s) (cur_time c) \<Longrightarrow>
     0 \<le> warnings_printed s \<Longrightarrow>
     warnings_printed s + int (length cs) < warnings_time_limit \<Longrightarrow>
     map rendered (emit_sequence cfg s cs) = replicate (length cs) True \<and>
     end_state s (emit_sequence cfg s cs) =
       s\<lparr>warnings_printed := warnings_printed s + int (length cs)\<rparr>"
proof (induction cs arbitrary: s)
  case Nil
  show ?case by (simp add: end_state_Nil)
next
  case (Cons c cs)
  let ?s' = "s\<lparr>warnings_printed := warnings_printed s + 1\<rparr>"
  have inw: "\<not> window_elapsed (warnings_count_time s) (cur_time c)"
    using Cons.prems(1) by simp
  have lt: "warnings_printed s + 1 < warnings_time_limit"
    using Cons.prems(3) by simp
  note st = step_render [OF assms inw Cons.prems(2) lt]
  have "map rendered (emit_sequence cfg ?s' cs) = replicate (length cs) True \<and>
     end_state ?s' (emit_sequence cfg ?s' cs) =
       ?s'\<lparr>warnings_printed := warnings_printed ?s' + int (length cs)\<rparr>"
    using Cons.prems by (intro Cons.IH) simp_all
  moreover have "emit_sequence cfg s (c # cs) = php_warning cfg s c # emit_sequence cfg ?s' cs"
    by (simp only: emit_sequence_Cons [OF assms(3)] st(1))
  ultimately show ?case
    by (simp add: st end_state_Cons add.assoc del: emit_sequence.simps)
qed

lemma run_silent:
  assumes "php_warning_level cfg \<noteq> 0" and "php_disable_warnings cfg = 0"
    and "die_on_fail cfg = 0"
  shows "\<forall>c\<in>set cs. \<not> window_elapsed (warnings_count_time s) (cur_time c) \<Longrightarrow>
     warnings_time_limit \<le> warnings_printed s \<Longrightarrow>
     warnings_printed s + int (length cs) < 2147483648 \<Longrightarrow>
     0 \<le> skipped s \<Longrightarrow> skipped s + int (length cs) < 2147483648 \<Longrightarrow>
     map trace (emit_sequence cfg s cs) = replicate (length cs) [] \<and>
     end_state s (emit_sequence cfg s cs) =
       s\<lparr>warnings_printed := warnings_printed s + int (length cs),
         skipped := skipped s + int (length cs)\<rparr>"
proof (induction cs arbitrary: s)
  case Nil
  show ?case by (simp add: end_state_Nil)
next
  case (Cons c cs)
  let ?s' = "s\<lparr>warnings_printed := warnings_printed s + 1, skipped := skipped s + 1\<rparr>"
  have inw: "\<not> window_elapsed (warnings_count_time s) (cur_time c)"
    using Cons.prems(1) by simp
  have a: "warnings_time_limit \<le> warnings_printed s + 1"
    using Cons.prems(2) by simp
  have b: "warnings_printed s + 1 < 2147483648" "skipped s + 1 < 2147483648"
    using Cons.prems(3,5) by simp_all
  note st = step_skip [OF assms(1,2) inw a b(1) Cons.prems(4) b(2)]
  have "map trace (emit_sequence cfg ?s' cs) = replicate (length cs) [] \<and>
     end_state ?s' (emit_sequence cfg ?s' cs) =
       ?s'\<lparr>warnings_printed := warnings_printed ?s' + int (length cs),
         skipped := skipped ?s' + int (length cs)\<rparr>"
    using Cons.prems by (intro Cons.IH) simp_all
  moreover have "warnings_printed s + 1 \<noteq> warnings_time_limit"
    using Cons.prems(2) by simp
  moreover have "emit_sequence cfg s (c # cs) = php_warning cfg s c # emit_sequence cfg ?s' cs"
    by (simp only: emit_sequence_Cons [OF assms(3)] st(1))
  ultimately show ?case
    by (simp add: st end_state_Cons add.assoc del: emit_sequence.simps)
qed


lemma not_rendered_silent: "trace r = [] \<Longrightarrow> \<not> rendered r"
  by (simp add: rendered_def)

lemma not_rendered_limit: "trace r = [Write (Limit_notice t u)] \<Longrightarrow> \<not> rendered r"
  by (simp add: rendered_def)

lemma map_rendered_silent:
  "map trace rs = replicate n [] \<Longrightarrow> map rendered rs = replicate n False"
proof (induction rs arbitrary: n)
  case Nil
  then show ?case by simp
next
  case (Cons r rs)
  then obtain m where n: "n = Suc m"
    by (cases n) simp_all
  with Cons.prems have "trace r = []" and "map trace rs = replicate m []"
    by simp_all
  with Cons.IH [of m] n show ?case
    by (simp add: not_rendered_silent)
qed

text \<open>A whole window: the call that opens it, and \<open>es\<close> inside it, at least up to the limit.\<close>

lemma window_run:
  assumes en: "php_warning_level cfg \<noteq> 0" "php_disable_warnings cfg = 0" "die_on_fail cfg = 0"
    and sk: "0 \<le> skipped s"
    and roll: "window_elapsed (warnings_count_time s) (cur_time e0)"
    and inw: "\<forall>c\<in>set es. \<not> window_elapsed (cur_time e0) (cur_time c)"
    and lo: "warnings_time_limit \<le> int (length (e0 # es))"
    and hi: "int (length (e0 # es)) < 2147483648"
  shows "map rendered (emit_sequence cfg s (e0 # es)) =
           replicate 999 True @ replicate (length es - 998) False"
    and "map trace (drop 999 (emit_sequence cfg s (e0 # es))) =
           [Write (Limit_notice (cur_time (es ! 998))
              (wrap32 (cur_time e0 + warnings_time_period)))] #
           replicate (length es - 999) []"
    and "end_state s (emit_sequence cfg s (e0 # es)) =
           s\<lparr>warnings_printed := 1 + int (length es), warnings_count_time := cur_time e0,
             skipped := int (length es) - 998\<rparr>"
proof -
  define s1 where
    "s1 = s\<lparr>warnings_printed := 1, warnings_count_time := cur_time e0, skipped := 0\<rparr>"
  define sA where "sA = s1\<lparr>warnings_printed := 999\<rparr>"
  define sB where "sB = sA\<lparr>warnings_printed := 1000, skipped := 1\<rparr>"
  define es1 where "es1 = take 998 es"
  define eL where "eL = es ! 998"
  define es2 where "es2 = drop 999 es"
  define r0 where "r0 = php_warning cfg s e0"
  define rL where "rL = php_warning cfg sA eL"
  have len: "998 < length es"
    using lo by (simp add: warnings_time_limit_def)
  have split: "es = es1 @ eL # es2"
    unfolding es1_def eL_def es2_def using id_take_nth_drop [OF len] by simp
  have l1: "length es1 = 998"
    using len by (simp add: es1_def)
  have l2: "length es2 = length es - 999"
    by (simp add: es2_def)
  have in1: "\<forall>c\<in>set es1. \<not> window_elapsed (cur_time e0) (cur_time c)"
    using inw by (auto simp: es1_def dest: in_set_takeD)
  have inL: "\<not> window_elapsed (cur_time e0) (cur_time eL)"
    using inw len by (simp add: eL_def)
  have in2: "\<forall>c\<in>set es2. \<not> window_elapsed (cur_time e0) (cur_time c)"
    using inw by (auto simp: es2_def dest: in_set_dropD)
  \<comment> \<open>the opening call\<close>
  have st0: "state_after r0 = s1" and rd0: "rendered r0"
    unfolding r0_def s1_def using step_rollover [OF en roll sk] by simp_all
  \<comment> \<open>the calls below the limit\<close>
  have run1: "map rendered (emit_sequence cfg s1 es1) = replicate 998 True"
    and end1: "end_state s1 (emit_sequence cfg s1 es1) = sA"
    using run_render [OF en, of es1 s1] in1 l1
    by (simp_all add: s1_def sA_def warnings_time_limit_def)
  \<comment> \<open>the call that reaches the limit\<close>
  have stL: "state_after rL = sB"
    and trL: "trace rL = [Write (Limit_notice (cur_time eL)
                (wrap32 (cur_time e0 + warnings_time_period)))]"
    unfolding rL_def
    using step_skip [OF en(1,2), of sA eL] inL
    by (simp_all add: s1_def sA_def sB_def warnings_time_limit_def)
  \<comment> \<open>the calls beyond it\<close>
  have hi2: "int (length es2) < 2147482648"
    using hi l2 by simp
  have run2: "map trace (emit_sequence cfg sB es2) = replicate (length es2) []"
    and end2: "end_state sB (emit_sequence cfg sB es2) =
      sB\<lparr>warnings_printed := 1000 + int (length es2), skipped := 1 + int (length es2)\<rparr>"
    using run_silent [OF en, of es2 sB] in2 hi2
    by (simp_all add: s1_def sA_def sB_def warnings_time_limit_def)
  have whole: "emit_sequence cfg s (e0 # es) =
      r0 # emit_sequence cfg s1 es1 @ rL # emit_sequence cfg sB es2"
    unfolding split
    by (simp only: emit_sequence_Cons [OF en(3)] emit_sequence_append [OF en(3)]
        r0_def [symmetric] st0 end1 rL_def [symmetric] stL)
  have len1: "length (emit_sequence cfg s1 es1) = 998"
    using run1 by (metis length_map length_replicate)
  show "map rendered (emit_sequence cfg s (e0 # es)) =
           replicate 999 True @ replicate (length es - 998) False"
  proof -
    have "map rendered (emit_sequence cfg sB es2) = replicate (length es2) False"
      using run2 by (rule map_rendered_silent)
    moreover have "\<not> rendered rL"
      using trL by (rule not_rendered_limit)
    moreover have "Suc (length es2) = length es - 998"
      using len l2 by simp
    moreover have "replicate 999 True = True # replicate 998 True"
      by (simp add: numeral_eq_Suc)
    ultimately show ?thesis
      unfolding whole using rd0 run1
      by (simp add: replicate_Suc [symmetric] del: replicate_Suc replicate.simps)
  qed
  show "map trace (drop 999 (emit_sequence cfg s (e0 # es))) =
           [Write (Limit_notice (cur_time (es ! 998))
              (wrap32 (cur_time e0 + warnings_time_period)))] #
           replicate (length es - 999) []"
  proof -
    have "drop 999 (r0 # emit_sequence cfg s1 es1 @ rL # emit_sequence cfg sB es2) =
        rL # emit_sequence cfg sB es2"
      using len1 by (simp add: drop_Cons')
    then show ?thesis
      unfolding whole using trL run2 l2 by (simp add: eL_def)
  qed
  show "end_state s (emit_sequence cfg s (e0 # es)) =
           s\<lparr>warnings_printed := 1 + int (length es), warnings_count_time := cur_time e0,
             skipped := int (length es) - 998\<rparr>"
  proof -
    have "end_state s (r0 # emit_sequence cfg s1 es1 @ rL # emit_sequence cfg sB es2) =
        end_state sB (emit_sequence cfg sB es2)"
    proof -
      have "end_state x (xs @ r # ys) = end_state (state_after r) ys" for x xs r ys
        by (induction xs arbitrary: x) (simp_all add: end_state_Cons)
      from this [of s "r0 # emit_sequence cfg s1 es1" rL] stL show ?thesis
        by simp
    qed
    moreover have "int (length es2) = int (length es) - 999"
      using len l2 by simp
    ultimately show ?thesis
      unfolding whole end2 by (simp add: sB_def sA_def s1_def)
  qed
qed

lemma length_filter_map: "length (filter P xs) = length (filter (\<lambda>b. b) (map P xs))"
  by (induction xs) simp_all

text \<open>The hypotheses of a whole window, at the concrete inputs: 1050 calls at time 1000 from the
  initial state, and one call at time 1301.\<close>

lemma example_window:
  "php_warning_level example_config \<noteq> 0"
  "php_disable_warnings example_config = 0"
  "die_on_fail example_config = 0"
  "0 \<le> skipped initial_state"
  "window_elapsed (warnings_count_time initial_state) (cur_time example_call)"
  "\<forall>c\<in>set (replicate 1049 example_call).
     \<not> window_elapsed (cur_time example_call) (cur_time c)"
  "warnings_time_limit \<le> int (length (example_call # replicate 1049 example_call))"
  "int (length (example_call # replicate 1049 example_call)) < 2147483648"
  "window_elapsed (cur_time example_call) (cur_time later_call)"
  by (simp_all add: example_config_def initial_state_def example_call_def later_call_def
      window_elapsed_def cur_time_def wrap32_def warnings_time_period_def
      warnings_time_limit_def)

section \<open>The claims\<close>

subsection \<open>C1: what a window renders and what it skips\<close>

text \<open>
  Claim C1, as amended. Let warnings be enabled and \<open>die_on_fail\<close> be off, and let \<open>N\<close>
  calls of \<open>php_warning\<close> fall in one rate window (the first opens it, the others come
  before it has elapsed), with \<open>N\<close> at least the limit of 1000 and below \<open>2^31\<close>. Then
  exactly the first 999 calls, one less than the limit, render a report, and exactly
  \<open>N - 999\<close> are counted in \<open>skipped\<close>. The suppressed calls write no report: the call
  that reaches the limit writes the one-line notice that the limit is reached, every later
  call of the window writes nothing.
\<close>

theorem rate_window_renders_below_limit:
  assumes "php_warning_level cfg \<noteq> 0" and "php_disable_warnings cfg = 0"
    and "die_on_fail cfg = 0"
    and "0 \<le> skipped s"
    and "window_elapsed (warnings_count_time s) (cur_time e0)"
    and "\<forall>c\<in>set es. \<not> window_elapsed (cur_time e0) (cur_time c)"
    and "warnings_time_limit \<le> int (length (e0 # es))"
    and "int (length (e0 # es)) < 2147483648"
  shows "let rs = emit_sequence cfg s (e0 # es);
             N = length (e0 # es);
             cap = nat warnings_time_limit
         in length rs = N \<and>
            map rendered rs = replicate (cap - 1) True @ replicate (N - (cap - 1)) False \<and>
            length (filter rendered rs) = cap - 1 \<and>
            skipped (end_state s rs) = int N - (warnings_time_limit - 1) \<and>
            map trace (drop (cap - 1) rs) =
              [Write (Limit_notice (cur_time (es ! (cap - 2)))
                 (wrap32 (cur_time e0 + warnings_time_period)))] #
              replicate (N - cap) []"
proof -
  define rs where "rs = emit_sequence cfg s (e0 # es)"
  note w = window_run [OF assms, folded rs_def]
  have len: "length rs = length (e0 # es)"
    unfolding rs_def using emit_sequence_returns [OF assms(3)] by blast
  have cnt: "length (filter rendered rs) = 999"
    by (simp add: length_filter_map [of rendered] w(1))
  have sk: "skipped (end_state s rs) = int (length es) - 998"
    by (simp add: w(3))
  have cap: "nat warnings_time_limit = 1000"
    by (simp add: warnings_time_limit_def)
  have "length rs = length (e0 # es) \<and>
      map rendered rs = replicate (1000 - 1) True @
        replicate (length (e0 # es) - (1000 - 1)) False \<and>
      length (filter rendered rs) = 1000 - 1 \<and>
      skipped (end_state s rs) = int (length (e0 # es)) - (warnings_time_limit - 1) \<and>
      map trace (drop (1000 - 1) rs) =
        [Write (Limit_notice (cur_time (es ! (1000 - 2)))
           (wrap32 (cur_time e0 + warnings_time_period)))] #
        replicate (length (e0 # es) - 1000) []"
    using len cnt sk w(1,2) by (simp add: warnings_time_limit_def)
  then show ?thesis
    unfolding Let_def cap rs_def .
qed

text \<open>1050 calls at time 1000, from the initial state: 999 render, 51 are skipped.\<close>

theorem rate_window_renders_below_limit_witness:
  "window_elapsed (warnings_count_time initial_state) (cur_time example_call) \<and>
   \<not> window_elapsed (cur_time example_call) (cur_time example_call) \<and>
   length (filter rendered (emit_sequence example_config initial_state
     (example_call # replicate 1049 example_call))) = 999 \<and>
   skipped (end_state initial_state (emit_sequence example_config initial_state
     (example_call # replicate 1049 example_call))) = 51"
proof -
  note t = rate_window_renders_below_limit [OF example_window(1-8), unfolded Let_def]
  have cap: "nat warnings_time_limit - 1 = 999"
    by (simp add: warnings_time_limit_def)
  have n: "int (length (example_call # replicate 1049 example_call)) -
      (warnings_time_limit - 1) = 51"
    by (simp add: warnings_time_limit_def)
  have a: "length (filter rendered (emit_sequence example_config initial_state
     (example_call # replicate 1049 example_call))) = 999"
    using conjunct1 [OF conjunct2 [OF conjunct2 [OF t]]] by (simp only: cap)
  have b: "skipped (end_state initial_state (emit_sequence example_config initial_state
     (example_call # replicate 1049 example_call))) = 51"
    using conjunct1 [OF conjunct2 [OF conjunct2 [OF conjunct2 [OF t]]]] by (simp only: n)
  have inw: "\<not> window_elapsed (cur_time example_call) (cur_time example_call)"
    using example_window(6) by simp
  from example_window(5) inw a b show ?thesis
    by (intro conjI)
qed

text \<open>On the same input, it is not the case that 1000 calls render and 50 are skipped.\<close>

theorem rate_window_cap_counterexample:
  "\<not> (length (filter rendered (emit_sequence example_config initial_state
          (example_call # replicate 1049 example_call))) = nat warnings_time_limit \<and>
       skipped (end_state initial_state (emit_sequence example_config initial_state
          (example_call # replicate 1049 example_call))) = 1050 - warnings_time_limit)"
proof -
  note w = window_run [OF example_window(1-8)]
  have "skipped (end_state initial_state (emit_sequence example_config initial_state
          (example_call # replicate 1049 example_call))) = 51"
    by (simp only: w(3)) simp
  then show ?thesis
    by (simp add: warnings_time_limit_def)
qed

subsection \<open>C2: the scheduler boundary is the first frame inside the region\<close>

text \<open>
  Claim C2. For every sequence of captured frames, the classification of line 126 returns
  the number of frames when no frame address lies in the scheduler region, and then the
  frames are printed alone, no cooperative frames being spliced in; otherwise it returns
  the index of the first frame, in capture order, whose address lies in the region: that
  frame is inside and no earlier one is.
\<close>

theorem scheduler_id_first_inside:
  "(if \<exists>a\<in>set frames. is_address_inside_run_scheduler cfg a
    then scheduler_id cfg frames (int (length frames)) < int (length frames) \<and>
         is_address_inside_run_scheduler cfg
           (frames ! nat (scheduler_id cfg frames (int (length frames)))) \<and>
         (\<forall>j < nat (scheduler_id cfg frames (int (length frames))).
            \<not> is_address_inside_run_scheduler cfg (frames ! j))
    else scheduler_id cfg frames (int (length frames)) = int (length frames) \<and>
         print_frames cfg c frames (int (length frames)) =
           print_demangled_adresses cfg c frames (int (length frames)) 0)"
proof (cases "\<exists>a\<in>set frames. is_address_inside_run_scheduler cfg a")
  case True
  from find_if_first [OF True] True show ?thesis
    by (simp add: scheduler_id_def)
next
  case False
  then have "find_if (is_address_inside_run_scheduler cfg) frames = length frames"
    by (simp add: find_if_none)
  with False show ?thesis
    by (simp add: scheduler_id_def print_frames_def)
qed

text \<open>Both cases at concrete frames: \<open>[16, 5000, 48]\<close> has its boundary at index 1,
  \<open>[16, 32]\<close> has none.\<close>

theorem scheduler_id_first_inside_witness:
  "(\<exists>a\<in>set [16, 5000, 48]. is_address_inside_run_scheduler example_config a) \<and>
   scheduler_id example_config [16, 5000, 48] 3 < 3 \<and>
   is_address_inside_run_scheduler example_config
     ([16, 5000, 48] ! nat (scheduler_id example_config [16, 5000, 48] 3)) \<and>
   \<not> (\<exists>a\<in>set [16, 32]. is_address_inside_run_scheduler example_config a) \<and>
   scheduler_id example_config [16, 32] 2 = 2 \<and>
   print_frames example_config example_call [16, 32] 2 =
     print_demangled_adresses example_config example_call [16, 32] 2 0"
proof -
  have a: "\<exists>a\<in>set [16, 5000, 48]. is_address_inside_run_scheduler example_config a"
    by (simp add: is_address_inside_run_scheduler_def example_config_def)
  have b: "\<not> (\<exists>a\<in>set [16, 32]. is_address_inside_run_scheduler example_config a)"
    by (simp add: is_address_inside_run_scheduler_def example_config_def)
  from a b show ?thesis
    using scheduler_id_first_inside [of "[16, 5000, 48]" example_config example_call]
      scheduler_id_first_inside [of "[16, 32]" example_config example_call]
    by simp
qed

subsection \<open>C3: assertions leave the process, plain warnings return\<close>

text \<open>
  Claim C3. Every call of \<open>php_assert__\<close> leaves the process (its status is an exit,
  never a return), and with \<open>die_on_fail\<close> off every call of \<open>php_warning\<close> returns, from
  any state, so that any number of successive calls all return.
\<close>

theorem assert_exits_warning_returns:
  "status (php_assert cfg s a) = Exited 1 \<and>
   (die_on_fail cfg = 0 \<longrightarrow>
      status (php_warning cfg s c) = Returned \<and>
      length (emit_sequence cfg s cs) = length cs \<and>
      (\<forall>r\<in>set (emit_sequence cfg s cs). status r = Returned))"
proof -
  have "status (php_assert cfg s a) = Exited 1"
  proof (cases "status (php_warning cfg s (assertion_call a))")
    case Returned
    then show ?thesis by (simp add: php_assert_def Let_def)
  next
    case (Exited code)
    with php_warning_exit_code [OF Exited] show ?thesis
      by (simp add: php_assert_def Let_def)
  qed
  then show ?thesis
    using emit_sequence_returns [of cfg s cs] by (simp add: php_warning_returns)
qed

theorem assert_exits_warning_returns_witness:
  "die_on_fail example_config = 0 \<and>
   status (php_assert example_config initial_state example_assertion) = Exited 1 \<and>
   status (php_warning example_config initial_state example_call) = Returned \<and>
   length (emit_sequence example_config initial_state [example_call, later_call]) = 2"
proof -
  note t = assert_exits_warning_returns [of example_config initial_state example_assertion
      example_call "[example_call, later_call]"]
  have h: "die_on_fail example_config = 0"
    by (simp add: example_config_def)
  have a: "status (php_assert example_config initial_state example_assertion) = Exited 1"
    using t by (rule conjunct1)
  note r = mp [OF conjunct2 [OF t] h]
  have b: "status (php_warning example_config initial_state example_call) = Returned"
    using r by (rule conjunct1)
  have "length (emit_sequence example_config initial_state [example_call, later_call]) =
      length [example_call, later_call]"
    using conjunct2 [OF r] by (rule conjunct1)
  then have c: "length (emit_sequence example_config initial_state
      [example_call, later_call]) = 2"
    by (simp only: list.size One_nat_def add_Suc_right add_0_right numeral_2_eq_2)
  from h a b c show ?thesis
    by (intro conjI)
qed

subsection \<open>C4: the order of the spliced report\<close>

text \<open>
  Claim C4, as amended. Whenever a capture is made (the level is at least 1) and a scheduler
  boundary exists among the frames kept for rendering, which are all captured frames at the
  levels other than 1 and the captured frames less the two outermost ones at level 1, the
  backtrace of the report consists, between its header and its footer, of exactly three
  segments in this order: the kept frames before the boundary, the frames of the
  cooperative task (possibly none), the kept frames from the boundary on; at level 1 these
  are the address lines of the three segments, and the backtrace stands in the trace of
  every rendered call right after the warning line. The boundary \<open>k\<close> is the first
  captured frame inside the scheduler. The first segment holds the captured frames at the
  positions below \<open>k\<close>, the last one those at the positions from \<open>k\<close> on: they are
  disjoint parts of the capture, and every frame of the first precedes every frame of the
  last.
\<close>

theorem splice_order:
  "let buffer = fast_backtrace c 64;
       frames = take (nat (frame_count cfg buffer)) buffer;
       k = find_if (is_address_inside_run_scheduler cfg) frames;
       coop = get_resumable_stack c 64
   in (php_warning_level cfg \<noteq> 1 \<longrightarrow> frames = buffer) \<and>
      (1 \<le> php_warning_level cfg \<and> k < length frames \<longrightarrow>
         stack_backtrace cfg c =
           [Write Backtrace_header] @
           print_demangled_adresses cfg c (take k frames) (int k) 0 @
           print_demangled_adresses cfg c coop (int (length coop)) (int k) @
           print_demangled_adresses cfg c (drop k frames) (int (length frames - k))
             (int k + int (length coop)) @
           [Write Backtrace_footer] \<and>
         (php_warning_level cfg = 1 \<longrightarrow>
            stack_backtrace cfg c =
              [Write Backtrace_header] @
              map (\<lambda>a. Write (Address_line a)) (take k frames @ coop @ drop k frames) @
              [Write Backtrace_footer]) \<and>
         (rendered (php_warning cfg s c) \<longrightarrow>
            trace (php_warning cfg s c) =
              snd (window_rollover s c) @
              [Write (Warning_line (engine_tag cfg) (cur_time c) (engine_pid cfg) (buf c))] @
              stack_backtrace cfg c @
              (if in_critical_section s = 0 then [Invoke_callback (buf c)] else []) @
              (if die_on_fail cfg \<noteq> 0
               then [Raise_SIGPHPASSERT, Write Exiting_in_php_warning] else [])) \<and>
         is_address_inside_run_scheduler cfg (buffer ! k) \<and>
         (\<forall>j < k. \<not> is_address_inside_run_scheduler cfg (buffer ! j)) \<and>
         (\<forall>i < k. take k frames ! i = buffer ! i) \<and>
         (\<forall>j < length frames - k. drop k frames ! j = buffer ! (k + j)))"
proof -
  define buffer where "buffer = fast_backtrace c 64"
  define n where "n = frame_count cfg buffer"
  define frames where "frames = take (nat n) buffer"
  define k where "k = find_if (is_address_inside_run_scheduler cfg) frames"
  define coop where "coop = get_resumable_stack c 64"
  have n0: "0 \<le> n" and n1: "n \<le> int (length buffer)"
    using frame_count_range [of cfg buffer] by (simp_all add: n_def)
  have len: "int (length frames) = n"
    using n0 n1 by (simp add: frames_def)
  have all: "frames = buffer" if "php_warning_level cfg \<noteq> 1"
    using frame_count_all [OF that, of buffer] by (simp add: frames_def n_def)
  have main: "stack_backtrace cfg c =
           [Write Backtrace_header] @
           print_demangled_adresses cfg c (take k frames) (int k) 0 @
           print_demangled_adresses cfg c coop (int (length coop)) (int k) @
           print_demangled_adresses cfg c (drop k frames) (int (length frames - k))
             (int k + int (length coop)) @
           [Write Backtrace_footer]"
    and lines: "php_warning_level cfg = 1 \<longrightarrow>
            stack_backtrace cfg c =
              [Write Backtrace_header] @
              map (\<lambda>a. Write (Address_line a)) (take k frames @ coop @ drop k frames) @
              [Write Backtrace_footer]"
    and inside: "is_address_inside_run_scheduler cfg (buffer ! k)"
    and first: "\<forall>j < k. \<not> is_address_inside_run_scheduler cfg (buffer ! j)"
    and pre: "\<forall>i < k. take k frames ! i = buffer ! i"
    and post: "\<forall>j < length frames - k. drop k frames ! j = buffer ! (k + j)"
    if lvl: "1 \<le> php_warning_level cfg" and klt: "k < length frames"
  proof -
    have sid: "scheduler_id cfg buffer n = int k"
      by (simp add: scheduler_id_def k_def frames_def)
    have ne: "scheduler_id cfg buffer n \<noteq> n"
      using klt len sid by simp
    have kn: "k < nat n"
      using klt len by simp
    note sp = print_frames_splice [OF n0 n1 ne, of c, unfolded Let_def sid nat_int,
        folded frames_def coop_def]
    have pf: "print_frames cfg c buffer n =
        print_demangled_adresses cfg c (take k frames) (int k) 0 @
        print_demangled_adresses cfg c coop (int (length coop)) (int k) @
        print_demangled_adresses cfg c (drop k frames) (int (length frames - k))
          (int k + int (length coop))"
      using sp by blast
    show main: "stack_backtrace cfg c =
           [Write Backtrace_header] @
           print_demangled_adresses cfg c (take k frames) (int k) 0 @
           print_demangled_adresses cfg c coop (int (length coop)) (int k) @
           print_demangled_adresses cfg c (drop k frames) (int (length frames - k))
             (int k + int (length coop)) @
           [Write Backtrace_footer]"
      using lvl
      by (simp add: stack_backtrace_def Let_def buffer_def [symmetric] n_def [symmetric] pf)
    show "php_warning_level cfg = 1 \<longrightarrow>
            stack_backtrace cfg c =
              [Write Backtrace_header] @
              map (\<lambda>a. Write (Address_line a)) (take k frames @ coop @ drop k frames) @
              [Write Backtrace_footer]"
      unfolding main using klt by (simp add: print_demangled_adresses_def)
    have ex: "\<exists>a\<in>set frames. is_address_inside_run_scheduler cfg a"
    proof (rule ccontr)
      assume "\<not> ?thesis"
      then have "k = length frames"
        unfolding k_def by (simp add: find_if_none)
      with klt show False by simp
    qed
    note ff = find_if_first [OF ex, folded k_def]
    have nth: "frames ! j = buffer ! j" if "j < nat n" for j
      using that by (simp add: frames_def)
    show "is_address_inside_run_scheduler cfg (buffer ! k)"
      using ff nth [OF kn] by simp
    show "\<forall>j < k. \<not> is_address_inside_run_scheduler cfg (buffer ! j)"
      using ff nth kn by auto
    show "\<forall>i < k. take k frames ! i = buffer ! i"
      using nth kn by auto
    show "\<forall>j < length frames - k. drop k frames ! j = buffer ! (k + j)"
      using nth klt len by auto
  qed
  note rt = rendered_trace [of cfg s c]
  have "(php_warning_level cfg \<noteq> 1 \<longrightarrow> frames = buffer) \<and>
      (1 \<le> php_warning_level cfg \<and> k < length frames \<longrightarrow>
         stack_backtrace cfg c =
           [Write Backtrace_header] @
           print_demangled_adresses cfg c (take k frames) (int k) 0 @
           print_demangled_adresses cfg c coop (int (length coop)) (int k) @
           print_demangled_adresses cfg c (drop k frames) (int (length frames - k))
             (int k + int (length coop)) @
           [Write Backtrace_footer] \<and>
         (php_warning_level cfg = 1 \<longrightarrow>
            stack_backtrace cfg c =
              [Write Backtrace_header] @
              map (\<lambda>a. Write (Address_line a)) (take k frames @ coop @ drop k frames) @
              [Write Backtrace_footer]) \<and>
         (rendered (php_warning cfg s c) \<longrightarrow>
            trace (php_warning cfg s c) =
              snd (window_rollover s c) @
              [Write (Warning_line (engine_tag cfg) (cur_time c) (engine_pid cfg) (buf c))] @
              stack_backtrace cfg c @
              (if in_critical_section s = 0 then [Invoke_callback (buf c)] else []) @
              (if die_on_fail cfg \<noteq> 0
               then [Raise_SIGPHPASSERT, Write Exiting_in_php_warning] else [])) \<and>
         is_address_inside_run_scheduler cfg (buffer ! k) \<and>
         (\<forall>j < k. \<not> is_address_inside_run_scheduler cfg (buffer ! j)) \<and>
         (\<forall>i < k. take k frames ! i = buffer ! i) \<and>
         (\<forall>j < length frames - k. drop k frames ! j = buffer ! (k + j)))"
    using all main lines inside first pre post rt by blast
  then show ?thesis
    unfolding Let_def coop_def k_def frames_def n_def buffer_def .
qed

text \<open>Six captured frames with the boundary at index 2 and one cooperative frame: at level
  2 all six are kept and fall into the segments of 2, 1 and 4 frames; at level 1 four are
  kept and fall into the segments of 2, 1 and 2 frames.\<close>

theorem splice_order_witness:
  "(1::int) \<le> php_warning_level (example_config\<lparr>php_warning_level := 2\<rparr>) \<and>
   find_if (is_address_inside_run_scheduler (example_config\<lparr>php_warning_level := 2\<rparr>))
     (fast_backtrace example_call 64) = 2 \<and>
   stack_backtrace (example_config\<lparr>php_warning_level := 2\<rparr>) example_call =
     [Write Backtrace_header, Write (Symbols_fd [16, 32]), Write (Symbols_fd [100]),
      Write (Symbols_fd [5000, 48, 64, 80]), Write Backtrace_footer] \<and>
   php_warning_level example_config = 1 \<and>
   stack_backtrace example_config example_call =
     [Write Backtrace_header, Write (Address_line 16), Write (Address_line 32),
      Write (Address_line 100), Write (Address_line 5000), Write (Address_line 48),
      Write Backtrace_footer]"
proof -
  let ?cfg = "example_config\<lparr>php_warning_level := 2\<rparr>"
  have h1: "(1::int) \<le> php_warning_level ?cfg"
    by simp
  have k2: "find_if (is_address_inside_run_scheduler ?cfg) (fast_backtrace example_call 64) = 2"
    by (simp add: fast_backtrace_def example_call_def is_address_inside_run_scheduler_def
        example_config_def)
  have a: "stack_backtrace ?cfg example_call =
     [Write Backtrace_header, Write (Symbols_fd [16, 32]), Write (Symbols_fd [100]),
      Write (Symbols_fd [5000, 48, 64, 80]), Write Backtrace_footer]"
    using splice_order [of example_call ?cfg initial_state]
    by (simp add: Let_def fast_backtrace_def get_resumable_stack_def frame_count_def
        example_call_def is_address_inside_run_scheduler_def example_config_def
        print_demangled_adresses_def)
  have h2: "php_warning_level example_config = 1"
    by (simp add: example_config_def)
  have b: "stack_backtrace example_config example_call =
     [Write Backtrace_header, Write (Address_line 16), Write (Address_line 32),
      Write (Address_line 100), Write (Address_line 5000), Write (Address_line 48),
      Write Backtrace_footer]"
    using splice_order [of example_call example_config initial_state]
    by (simp add: Let_def fast_backtrace_def get_resumable_stack_def frame_count_def
        example_call_def is_address_inside_run_scheduler_def example_config_def
        print_demangled_adresses_def)
  from h1 k2 a h2 b show ?thesis
    by (intro conjI)
qed

text \<open>
  At level 1 a boundary that lies in the two frames dropped is not seen: the capture
  \<open>[16, 32, 48, 5000]\<close> has its boundary at index 3 and a cooperative frame is at hand,
  yet the report shows the two kept frames alone, not the three segments.
\<close>

theorem boundary_in_dropped_frames_counterexample:
  "(\<exists>a\<in>set (fast_backtrace outermost_boundary_call 64).
      is_address_inside_run_scheduler example_config a) \<and>
   find_if (is_address_inside_run_scheduler example_config)
     (fast_backtrace outermost_boundary_call 64) = 3 \<and>
   get_resumable_stack outermost_boundary_call 64 = [100] \<and>
   stack_backtrace example_config outermost_boundary_call =
     [Write Backtrace_header, Write (Address_line 16), Write (Address_line 32),
      Write Backtrace_footer] \<and>
   stack_backtrace example_config outermost_boundary_call \<noteq>
     [Write Backtrace_header] @
     map (\<lambda>a. Write (Address_line a)) ([16, 32, 48] @ [100] @ [5000]) @
     [Write Backtrace_footer]"
  by (simp add: stack_backtrace_def example_config_def outermost_boundary_call_def
      example_call_def fast_backtrace_def frame_count_def print_frames_def scheduler_id_def
      is_address_inside_run_scheduler_def print_demangled_adresses_def
      get_resumable_stack_def)

subsection \<open>C5: the notice that opens the next window\<close>

text \<open>
  Claim C5, as amended. After a window of \<open>N\<close> calls as in C1, the counter \<open>skipped\<close>
  holds \<open>K = N - 999\<close>, the number of calls of the window that did not render, which is
  positive. The first call of the next window then writes the one-line resuming notice
  with exactly this \<open>K\<close>, followed by its own report, and resets \<open>skipped\<close> to zero.
\<close>

theorem resuming_notice_counts_skipped:
  assumes "php_warning_level cfg \<noteq> 0" and "php_disable_warnings cfg = 0"
    and "die_on_fail cfg = 0"
    and "0 \<le> skipped s"
    and "window_elapsed (warnings_count_time s) (cur_time e0)"
    and "\<forall>c\<in>set es. \<not> window_elapsed (cur_time e0) (cur_time c)"
    and "warnings_time_limit \<le> int (length (e0 # es))"
    and "int (length (e0 # es)) < 2147483648"
    and "window_elapsed (cur_time e0) (cur_time c)"
  shows "let s' = end_state s (emit_sequence cfg s (e0 # es));
             r = php_warning cfg s' c;
             K = int (length (e0 # es)) - (warnings_time_limit - 1)
         in skipped s' = K \<and> 0 < K \<and>
            trace r =
              Write (Resuming_notice (wrap32 (clock_resume c)) K) #
              Write (Warning_line (engine_tag cfg) (cur_time c) (engine_pid cfg) (buf c)) #
              stack_backtrace cfg c @
              (if in_critical_section s = 0 then [Invoke_callback (buf c)] else []) \<and>
            rendered r \<and> skipped (state_after r) = 0"
proof -
  define s' where "s' = end_state s (emit_sequence cfg s (e0 # es))"
  define K where "K = int (length (e0 # es)) - (warnings_time_limit - 1)"
  have s': "s' = s\<lparr>warnings_printed := 1 + int (length es),
      warnings_count_time := cur_time e0, skipped := int (length es) - 998\<rparr>"
    unfolding s'_def by (rule window_run(3) [OF assms(1-8)])
  have K: "skipped s' = K"
    by (simp add: s' K_def warnings_time_limit_def)
  have pos: "0 < K"
    using assms(7) by (simp add: K_def warnings_time_limit_def)
  have roll: "window_elapsed (warnings_count_time s') (cur_time c)"
    using assms(9) by (simp add: s')
  have nonneg: "0 \<le> skipped s'"
    using K pos by simp
  have depth: "in_critical_section s' = in_critical_section s"
    by (simp add: s')
  note st = step_rollover [OF assms(1-3) roll nonneg]
  have tr: "trace (php_warning cfg s' c) =
      Write (Resuming_notice (wrap32 (clock_resume c)) K) #
      Write (Warning_line (engine_tag cfg) (cur_time c) (engine_pid cfg) (buf c)) #
      stack_backtrace cfg c @
      (if in_critical_section s = 0 then [Invoke_callback (buf c)] else [])"
    using st(3) K pos depth by simp
  have after: "skipped (state_after (php_warning cfg s' c)) = 0"
    by (simp add: st(1))
  from K pos tr st(2) after show ?thesis
    unfolding Let_def s'_def [symmetric] K_def [symmetric] by (intro conjI)
qed

text \<open>1050 calls at time 1000, then one at time 1301: the notice reports 51.\<close>

theorem resuming_notice_counts_skipped_witness:
  "window_elapsed (cur_time example_call) (cur_time later_call) \<and>
   skipped (end_state initial_state (emit_sequence example_config initial_state
     (example_call # replicate 1049 example_call))) = 51 \<and>
   hd (trace (php_warning example_config
     (end_state initial_state (emit_sequence example_config initial_state
        (example_call # replicate 1049 example_call))) later_call)) =
     Write (Resuming_notice 1301 51)"
proof -
  note t = resuming_notice_counts_skipped [OF example_window, unfolded Let_def]
  have n: "int (length (example_call # replicate 1049 example_call)) -
      (warnings_time_limit - 1) = 51"
    by (simp add: warnings_time_limit_def)
  have r: "wrap32 (clock_resume later_call) = 1301"
    by (simp add: later_call_def wrap32_def)
  have a: "skipped (end_state initial_state (emit_sequence example_config initial_state
     (example_call # replicate 1049 example_call))) = 51"
    using conjunct1 [OF t] by (simp only: n)
  have b: "hd (trace (php_warning example_config
     (end_state initial_state (emit_sequence example_config initial_state
        (example_call # replicate 1049 example_call))) later_call)) =
     Write (Resuming_notice 1301 51)"
    by (simp only: conjunct1 [OF conjunct2 [OF conjunct2 [OF t]]] n r list.sel)
  from example_window(9) a b show ?thesis
    by (intro conjI)
qed

text \<open>On the same input the notice does not report \<open>N - cap = 50\<close>.\<close>

theorem resuming_notice_counterexample:
  "hd (trace (php_warning example_config
     (end_state initial_state (emit_sequence example_config initial_state
        (example_call # replicate 1049 example_call))) later_call)) \<noteq>
     Write (Resuming_notice 1301 (1050 - warnings_time_limit))"
proof -
  define s' where "s' = end_state initial_state (emit_sequence example_config initial_state
        (example_call # replicate 1049 example_call))"
  have s': "s' = initial_state\<lparr>warnings_printed := 1050,
      warnings_count_time := cur_time example_call, skipped := 51\<rparr>"
    unfolding s'_def by (simp only: window_run(3) [OF example_window(1-8)]) simp
  have roll: "window_elapsed (warnings_count_time s') (cur_time later_call)"
    using example_window(9) by (simp add: s')
  have nonneg: "0 \<le> skipped s'"
    by (simp add: s')
  have "skipped s' = 51"
    by (simp add: s')
  then have "hd (trace (php_warning example_config s' later_call)) =
      Write (Resuming_notice (wrap32 (clock_resume later_call)) 51)"
    by (simp add: step_rollover(3) [OF example_window(1-3) roll nonneg])
  then show ?thesis
    unfolding s'_def by (simp add: warnings_time_limit_def later_call_def wrap32_def)
qed

subsection \<open>C6: the backtrace at level 1\<close>

text \<open>
  Claim C6, as amended. For every rendered event at verbosity level 1, the backtrace
  consists of bare address lines only, between its header and its footer: one line for each
  captured frame except the two outermost ones, which line 120 drops, in capture order,
  and, when a scheduler boundary exists among the frames kept, one line for each frame of
  the cooperative task, spliced in at the boundary.
\<close>

theorem level1_address_lines:
  "php_warning_level cfg = 1 \<longrightarrow>
     stack_backtrace cfg c =
       [Write Backtrace_header] @
       map (\<lambda>a. Write (Address_line a))
         (let buffer = fast_backtrace c 64;
              frames = take (length buffer - 2) buffer;
              k = find_if (is_address_inside_run_scheduler cfg) frames
          in if k = length frames then frames
             else take k frames @ get_resumable_stack c 64 @ drop k frames) @
       [Write Backtrace_footer]"
proof
  assume lvl: "php_warning_level cfg = 1"
  define buffer where "buffer = fast_backtrace c 64"
  define frames where "frames = take (length buffer - 2) buffer"
  define k where "k = find_if (is_address_inside_run_scheduler cfg) frames"
  have cnt: "nat (frame_count cfg buffer) = length buffer - 2"
    using lvl by (auto simp: frame_count_def)
  have cnt': "frame_count cfg buffer = int (length buffer - 2)"
    using lvl by (auto simp: frame_count_def)
  have lenf: "length frames = length buffer - 2"
    by (simp add: frames_def)
  have kle: "k \<le> length frames"
    unfolding k_def by (rule find_if_le)
  have sid: "scheduler_id cfg buffer (frame_count cfg buffer) = int k"
    by (simp add: scheduler_id_def cnt k_def frames_def)
  have "print_frames cfg c buffer (frame_count cfg buffer) =
      map (\<lambda>a. Write (Address_line a))
        (if k = length frames then frames
         else take k frames @ get_resumable_stack c 64 @ drop k frames)"
  proof (cases "k = length frames")
    case True
    then show ?thesis
      using lvl sid cnt cnt' lenf
      by (simp add: print_frames_def print_demangled_adresses_def frames_def)
  next
    case False
    with kle have klt: "k < length frames" by simp
    have "k \<le> length buffer - 2"
      using klt lenf by simp
    then have a: "take k buffer = take k frames"
      by (simp add: frames_def min_absorb1)
    have b: "take (nat (frame_count cfg buffer - int k)) (drop k buffer) = drop k frames"
      using klt lenf by (simp add: cnt' frames_def drop_take nat_diff_distrib')
    from False show ?thesis
      using lvl sid cnt' lenf a b
      by (simp add: print_frames_def print_demangled_adresses_def Let_def)
  qed
  then have main: "stack_backtrace cfg c =
      [Write Backtrace_header] @
      map (\<lambda>a. Write (Address_line a))
        (if k = length frames then frames
         else take k frames @ get_resumable_stack c 64 @ drop k frames) @
      [Write Backtrace_footer]"
    using lvl by (simp add: stack_backtrace_def Let_def buffer_def)
  have "(let buffer = fast_backtrace c 64;
             frames = take (length buffer - 2) buffer;
             k = find_if (is_address_inside_run_scheduler cfg) frames
         in if k = length frames then frames
            else take k frames @ get_resumable_stack c 64 @ drop k frames) =
        (if k = length frames then frames
         else take k frames @ get_resumable_stack c 64 @ drop k frames)"
    unfolding Let_def k_def frames_def buffer_def by (rule refl)
  with main show "stack_backtrace cfg c =
       [Write Backtrace_header] @
       map (\<lambda>a. Write (Address_line a))
         (let buffer = fast_backtrace c 64;
              frames = take (length buffer - 2) buffer;
              k = find_if (is_address_inside_run_scheduler cfg) frames
          in if k = length frames then frames
             else take k frames @ get_resumable_stack c 64 @ drop k frames) @
       [Write Backtrace_footer]"
    by (simp only:)
qed

text \<open>Six captured frames and one cooperative frame give five lines.\<close>

theorem level1_address_lines_witness:
  "php_warning_level example_config = 1 \<and>
   stack_backtrace example_config example_call =
     [Write Backtrace_header, Write (Address_line 16), Write (Address_line 32),
      Write (Address_line 100), Write (Address_line 5000), Write (Address_line 48),
      Write Backtrace_footer]"
proof -
  have h: "php_warning_level example_config = 1"
    by (simp add: example_config_def)
  have "(let buffer = fast_backtrace example_call 64;
             frames = take (length buffer - 2) buffer;
             k = find_if (is_address_inside_run_scheduler example_config) frames
         in if k = length frames then frames
            else take k frames @ get_resumable_stack example_call 64 @ drop k frames) =
        [16, 32, 100, 5000, 48]"
    by (simp add: fast_backtrace_def get_resumable_stack_def example_call_def
        is_address_inside_run_scheduler_def example_config_def)
  with mp [OF level1_address_lines [of example_config example_call] h]
  have "stack_backtrace example_config example_call =
     [Write Backtrace_header, Write (Address_line 16), Write (Address_line 32),
      Write (Address_line 100), Write (Address_line 5000), Write (Address_line 48),
      Write Backtrace_footer]"
    by simp
  with h show ?thesis
    by (intro conjI)
qed

text \<open>
  One line per captured frame fails on that input: the output is neither the six captured
  frames nor the four frames that are kept.
\<close>

theorem level1_one_line_per_frame_counterexample:
  "stack_backtrace example_config example_call \<noteq>
     [Write Backtrace_header] @
     map (\<lambda>a. Write (Address_line a)) (fast_backtrace example_call 64) @
     [Write Backtrace_footer] \<and>
   stack_backtrace example_config example_call \<noteq>
     [Write Backtrace_header] @
     map (\<lambda>a. Write (Address_line a))
       (take (nat (frame_count example_config (fast_backtrace example_call 64)))
          (fast_backtrace example_call 64)) @
     [Write Backtrace_footer]"
  by (simp add: stack_backtrace_def example_config_def example_call_def fast_backtrace_def
      frame_count_def print_frames_def scheduler_id_def is_address_inside_run_scheduler_def
      print_demangled_adresses_def get_resumable_stack_def)

subsection \<open>C7: the critical section is left on every path\<close>

text \<open>
  Claim C7. On every path of \<open>php_warning\<close> the critical-section depth at the end of the
  call, whether the call returns or leaves the process through \<open>die_on_fail\<close>, equals the
  depth on entry: the guard entered at line 105 is left at line 140, before the exit of
  line 147.
\<close>

theorem critical_section_balanced:
  "in_critical_section (state_after (php_warning cfg s c)) = in_critical_section s"
  by (simp add: php_warning_def window_rollover_def enter_critical_section_def
      leave_critical_section_def Let_def)

text \<open>The path that leaves the process, inside an enclosing critical section.\<close>

theorem critical_section_balanced_witness:
  "status (php_warning (example_config\<lparr>die_on_fail := 1\<rparr>)
      (initial_state\<lparr>in_critical_section := 1\<rparr>) example_call) = Exited 1 \<and>
   in_critical_section (state_after (php_warning (example_config\<lparr>die_on_fail := 1\<rparr>)
      (initial_state\<lparr>in_critical_section := 1\<rparr>) example_call)) = 1"
proof -
  have "status (php_warning (example_config\<lparr>die_on_fail := 1\<rparr>)
      (initial_state\<lparr>in_critical_section := 1\<rparr>) example_call) = Exited 1"
    by (simp add: php_warning_def window_rollover_def window_elapsed_def cur_time_def
        wrap32_def warnings_time_period_def warnings_time_limit_def Let_def
        example_config_def example_call_def initial_state_def)
  then show ?thesis
    using critical_section_balanced [of "example_config\<lparr>die_on_fail := 1\<rparr>"
        "initial_state\<lparr>in_critical_section := 1\<rparr>" example_call]
    by simp
qed

subsection \<open>C8: the scheduler region is a closed range\<close>

text \<open>
  Claim C8, as amended. Membership of an address in the scheduler region is decided by the
  closed range: an address is inside exactly when start \<open>\<le>\<close> address \<open>\<le>\<close> stop, compared
  as unsigned values; so an address equal to the stop bound is classified as inside
  (whenever start \<open>\<le>\<close> stop).
\<close>

theorem scheduler_region_closed:
  "(is_address_inside_run_scheduler cfg a \<longleftrightarrow>
      unat (start_run_scheduler_section cfg) \<le> unat a \<and>
      unat a \<le> unat (stop_run_scheduler_section cfg)) \<and>
   (start_run_scheduler_section cfg \<le> stop_run_scheduler_section cfg \<longrightarrow>
      is_address_inside_run_scheduler cfg (stop_run_scheduler_section cfg))"
  by (simp add: is_address_inside_run_scheduler_def word_le_nat_alt)

theorem scheduler_region_closed_witness:
  "start_run_scheduler_section example_config \<le> stop_run_scheduler_section example_config \<and>
   is_address_inside_run_scheduler example_config 8192"
proof -
  have h: "start_run_scheduler_section example_config \<le>
      stop_run_scheduler_section example_config"
    by (simp add: example_config_def)
  with scheduler_region_closed [of example_config 8192]
  have "is_address_inside_run_scheduler example_config
      (stop_run_scheduler_section example_config)"
    by blast
  moreover have "stop_run_scheduler_section example_config = 8192"
    by (simp add: example_config_def)
  ultimately show ?thesis
    using h by simp
qed

text \<open>The half-open reading fails at the stop bound: 8192 is inside for the code, outside
  for \<open>[4096, 8192)\<close>.\<close>

theorem scheduler_region_half_open_counterexample:
  "is_address_inside_run_scheduler example_config 8192 \<noteq>
     (start_run_scheduler_section example_config \<le> 8192 \<and>
      8192 < stop_run_scheduler_section example_config)"
  by (simp add: is_address_inside_run_scheduler_def example_config_def)

subsection \<open>C9: the callback runs outside critical sections only\<close>

text \<open>
  Claim C9. When \<open>php_warning\<close> is called inside an enclosing critical section (the depth is
  not zero on entry, so the guard is still held after line 140) the callback is not invoked;
  a warning that is rendered outside any critical section invokes the callback exactly once,
  with the text of \<open>buf\<close>, the formatted message that the warning line shows.
\<close>

theorem callback_outside_critical_section:
  "(in_critical_section s \<noteq> 0 \<longrightarrow>
      filter is_callback (trace (php_warning cfg s c)) = []) \<and>
   (in_critical_section s = 0 \<and> rendered (php_warning cfg s c) \<longrightarrow>
      filter is_callback (trace (php_warning cfg s c)) = [Invoke_callback (buf c)] \<and>
      Write (Warning_line (engine_tag cfg) (cur_time c) (engine_pid cfg) (buf c))
        \<in> set (trace (php_warning cfg s c)))"
  by (simp add: php_warning_def window_rollover_def enter_critical_section_def
      leave_critical_section_def Let_def rendered_def stack_backtrace_no_callback)

theorem callback_outside_critical_section_witness:
  "in_critical_section (initial_state\<lparr>in_critical_section := 1\<rparr>) \<noteq> 0 \<and>
   filter is_callback (trace (php_warning example_config
     (initial_state\<lparr>in_critical_section := 1\<rparr>) example_call)) = [] \<and>
   in_critical_section initial_state = 0 \<and>
   rendered (php_warning example_config initial_state example_call) \<and>
   filter is_callback (trace (php_warning example_config initial_state example_call)) =
     [Invoke_callback ''Division by zero'']"
proof -
  have h1: "in_critical_section (initial_state\<lparr>in_critical_section := 1\<rparr>) \<noteq> 0"
    by simp
  have h2: "in_critical_section initial_state = 0"
    by (simp add: initial_state_def)
  have h3: "rendered (php_warning example_config initial_state example_call)"
    by (simp add: rendered_def php_warning_def window_rollover_def window_elapsed_def
        cur_time_def wrap32_def warnings_time_period_def warnings_time_limit_def Let_def
        example_config_def example_call_def initial_state_def)
  have b: "buf example_call = ''Division by zero''"
    by (simp add: buf_def BUF_SIZE_def example_call_def)
  note inside = callback_outside_critical_section [of
      "initial_state\<lparr>in_critical_section := 1\<rparr>" example_config example_call]
  note outside = callback_outside_critical_section [of initial_state example_config
      example_call]
  have a1: "filter is_callback (trace (php_warning example_config
     (initial_state\<lparr>in_critical_section := 1\<rparr>) example_call)) = []"
    using mp [OF conjunct1 [OF inside] h1] .
  have "filter is_callback (trace (php_warning example_config initial_state example_call)) =
     [Invoke_callback (buf example_call)]"
    using mp [OF conjunct2 [OF outside] conjI [OF h2 h3]] by (rule conjunct1)
  then have a2: "filter is_callback (trace (php_warning example_config initial_state
     example_call)) = [Invoke_callback ''Division by zero'']"
    by (simp only: b)
  from h1 a1 h2 h3 a2 show ?thesis
    by (intro conjI)
qed

subsection \<open>C10: suppressing the report does not suppress the exit\<close>

text \<open>
  Claim C10. \<open>php_assert__\<close> always raises \<open>SIGPHPASSERT\<close> and leaves the process with
  \<open>_exit(1)\<close>. When its report is suppressed, because the level is 0, warnings are
  disabled or the limit of the window is reached, \<open>php_warning\<close> renders nothing, and
  its trace is followed by the raised signal, the last line and the exit.
\<close>

theorem assert_exits_when_suppressed:
  "status (php_assert cfg s a) = Exited 1 \<and>
   Raise_SIGPHPASSERT \<in> set (trace (php_assert cfg s a)) \<and>
   (suppressed cfg s (assertion_call a) \<longrightarrow>
      \<not> rendered (php_warning cfg s (assertion_call a)) \<and>
      trace (php_assert cfg s a) =
        trace (php_warning cfg s (assertion_call a)) @
        [Raise_SIGPHPASSERT, Write Exiting_in_php_assert])"
proof -
  have st: "status (php_assert cfg s a) = Exited 1"
  proof (cases "status (php_warning cfg s (assertion_call a))")
    case Returned
    then show ?thesis by (simp add: php_assert_def Let_def)
  next
    case (Exited code)
    with php_warning_exit_code [OF Exited] show ?thesis
      by (simp add: php_assert_def Let_def)
  qed
  have raised: "Raise_SIGPHPASSERT \<in> set (trace (php_assert cfg s a))"
  proof (cases "status (php_warning cfg s (assertion_call a))")
    case Returned
    then show ?thesis by (simp add: php_assert_def Let_def)
  next
    case (Exited code)
    then have "Raise_SIGPHPASSERT \<in> set (trace (php_warning cfg s (assertion_call a)))"
      by (simp add: php_warning_def Let_def case_prod_beta split: if_splits)
    with Exited show ?thesis by (simp add: php_assert_def Let_def)
  qed
  from st raised show ?thesis
    using php_warning_suppressed [of cfg s "assertion_call a"]
    by (auto simp: php_assert_def Let_def)
qed

theorem assert_exits_when_suppressed_witness:
  "suppressed (example_config\<lparr>php_warning_level := 0\<rparr>) initial_state
     (assertion_call example_assertion) \<and>
   status (php_assert (example_config\<lparr>php_warning_level := 0\<rparr>) initial_state
     example_assertion) = Exited 1 \<and>
   trace (php_assert (example_config\<lparr>php_warning_level := 0\<rparr>) initial_state
     example_assertion) = [Raise_SIGPHPASSERT, Write Exiting_in_php_assert]"
proof -
  let ?cfg = "example_config\<lparr>php_warning_level := 0\<rparr>"
  have h: "suppressed ?cfg initial_state (assertion_call example_assertion)"
    by (simp add: suppressed_def)
  have w: "trace (php_warning ?cfg initial_state (assertion_call example_assertion)) = []"
    by (simp add: php_warning_def)
  note t = assert_exits_when_suppressed [of ?cfg initial_state example_assertion]
  have a: "status (php_assert ?cfg initial_state example_assertion) = Exited 1"
    using t by (rule conjunct1)
  have "trace (php_assert ?cfg initial_state example_assertion) =
      trace (php_warning ?cfg initial_state (assertion_call example_assertion)) @
      [Raise_SIGPHPASSERT, Write Exiting_in_php_assert]"
    using mp [OF conjunct2 [OF conjunct2 [OF t]] h] by (rule conjunct2)
  then have b: "trace (php_assert ?cfg initial_state example_assertion) =
      [Raise_SIGPHPASSERT, Write Exiting_in_php_assert]"
    by (simp only: w append_Nil)
  from h a b show ?thesis
    by (intro conjI)
qed

end
